theory Spec2Isabelle
  imports Main "HOL-Library.Word"
begin

section \<open>Data model of ext-service/main.go\<close>

text \<open>
  A Go \<open>string\<close> is a sequence of bytes and \<open>==\<close> compares it byte by byte, so it is a
  \<^typ>\<open>string\<close> here. A value of type \<open>interface{}\<close> that the JSON decoder produced is
  one of nil, bool, float64, string, a slice or a map with string keys; the float64 is
  kept as its 64 bits, which nothing in the service interprets.
\<close>

datatype json_value =
    JNull
  | JBool bool
  | JNumber "64 word"
  | JString string
  | JArray "json_value list"
  | JObject "(string \<times> json_value) list"

record Header =
  Name :: string
  Value :: "string list"

record RequestData =
  ClientID :: string
  GrantType :: string
  AdditionalHeaders :: "Header list"

record Claim =
  Name :: string
  Value :: json_value

record AccessToken =
  Scopes :: "string list"
  Claims :: "Claim list"

record RefreshToken =
  Claims :: "Claim list"

record Event =
  Request :: RequestData
  AccessToken :: AccessToken
  RefreshToken :: "RefreshToken option"

record Operation =
  Op :: string
  Paths :: "string list"

record Request =
  ActionType :: string
  Event :: Event
  AllowedOperations :: "Operation list"

record OperationResponse =
  Op :: string
  Path :: string
  Value :: json_value

record Response =
  ActionStatus :: string
  Operations :: "OperationResponse list"
  FailureReason :: string
  FailureDescription :: string
  ErrorMessage :: string
  ErrorDescription :: string

record Subject =
  Type :: string
  ID :: string

record Entitlement =
  EntitlementID :: string
  Subject :: Subject
  Action :: string
  Object :: "(string \<times> json_value) list"
  Constraints :: "(string \<times> json_value) list"

record EntitlementsData =
  Entitlements :: "Entitlement list"

section \<open>What surrounds the handler\<close>

text \<open>
  The handler reads three things it does not compute itself: the JSON decoder applied to
  the request body, the file system, and the JSON decoder applied to the bytes of
  \<open>entitlements.json\<close>. They are parameters of the model. Each returns a Go
  \<open>error\<close> (its message, on the left) or a value.
\<close>

record env =
  decodeRequest :: "string \<Rightarrow> string + Request"
  readFile :: "string \<Rightarrow> string + string"
  unmarshalEntitlements :: "string \<Rightarrow> string + EntitlementsData"

text \<open>
  The incoming \<open>*http.Request\<close>. The handler's reply depends on the method and on the
  body; \<open>Body\<close> is the result of \<open>ioutil.ReadAll\<close>. The URL (as \<open>r.URL.String()\<close>
  prints it), the protocol, the remote address and the transport headers are printed to
  the log and used for nothing else. \<open>r.Header\<close> is a Go map, over which \<open>range\<close> runs
  in an order that Go leaves open: \<open>Header\<close> lists its entries in the order in which
  this run visits them.
\<close>

record http_request =
  Method :: string
  Body :: "string + string"
  URL :: string
  Proto :: string
  RemoteAddr :: string
  Header :: "(string \<times> string list) list"

text \<open>
  What the handler hands to the \<open>http.ResponseWriter\<close>: either \<open>http.Error(w, msg, code)\<close>,
  or a \<open>Content-Type\<close> header followed by the \<open>Response\<close> given to the JSON encoder.
  A \<open>Response\<close> holds strings only, so the encoder can fail only when the connection
  refuses the bytes; that failure of the transport, after which the handler calls
  \<open>http.Error\<close> on the same connection, is not modelled.
\<close>

datatype reply =
    http_Error string nat
  | Encoded string Response

datatype panic = IndexOutOfRange

section \<open>The functions of main.go\<close>

text \<open>Indexing a slice panics outside its bounds.\<close>

definition index :: "'a list \<Rightarrow> nat \<Rightarrow> panic + 'a" where
  "index xs i = (if i < length xs then Inr (xs ! i) else Inl IndexOutOfRange)"

fun getHeaderValue :: "Header list \<Rightarrow> string \<Rightarrow> panic + string" where
  "getHeaderValue [] headerName = Inr ''''"
| "getHeaderValue (header # headers) headerName =
     (if Header.Name header = headerName \<and> length (Header.Value header) > 0
      then index (Header.Value header) 0
      else getHeaderValue headers headerName)"

definition loadEntitlements :: "env \<Rightarrow> string + EntitlementsData" where
  "loadEntitlements e =
     (case readFile e ''entitlements.json'' of
        Inl err \<Rightarrow> Inl (''failed to read entitlements.json: '' @ err)
      | Inr data \<Rightarrow>
          (case unmarshalEntitlements e data of
             Inl err \<Rightarrow> Inl (''failed to parse entitlements.json: '' @ err)
           | Inr entitlementsData \<Rightarrow> Inr entitlementsData))"

text \<open>
  The loop of the handler over \<open>entitlementsData.Entitlements\<close>; the third argument is
  the slice \<open>operations\<close> built so far, to which \<open>append\<close> adds at the end.
\<close>

fun handler_loop :: "string \<Rightarrow> Entitlement list \<Rightarrow> OperationResponse list \<Rightarrow> OperationResponse list" where
  "handler_loop partnerID [] operations = operations"
| "handler_loop partnerID (entitlement # rest) operations =
     (if Type (Subject entitlement) = ''partner'' \<and> ID (Subject entitlement) = partnerID
      then handler_loop partnerID rest
             (operations @
               [\<lparr>OperationResponse.Op = ''add'', Path = ''/accessToken/scopes/-'',
                 Value = JString (Type (Subject entitlement) @ '':'' @ Action entitlement)\<rparr>])
      else handler_loop partnerID rest operations)"

definition handler :: "env \<Rightarrow> http_request \<Rightarrow> panic + reply" where
  "handler e r =
     (if Method r \<noteq> ''POST'' then Inr (http_Error ''Method not allowed'' 405)
      else case Body r of
        Inl err \<Rightarrow> Inr (http_Error ''Invalid request'' 400)
      | Inr bodyBytes \<Rightarrow>
          (case decodeRequest e bodyBytes of
             Inl err \<Rightarrow> Inr (http_Error ''Invalid request'' 400)
           | Inr req \<Rightarrow>
               (case getHeaderValue (AdditionalHeaders (Request (Event req))) ''x-b2b-usp-partner'' of
                  Inl p \<Rightarrow> Inl p
                | Inr partnerID \<Rightarrow>
                    if partnerID = '''' then
                      Inr (Encoded ''application/json;charset=UTF-8''
                             \<lparr>ActionStatus = ''SUCCESS'', Operations = [],
                              FailureReason = '''', FailureDescription = '''',
                              ErrorMessage = '''', ErrorDescription = ''''\<rparr>)
                    else
                      (case loadEntitlements e of
                         Inl err \<Rightarrow> Inr (http_Error ''Internal server error'' 500)
                       | Inr entitlementsData \<Rightarrow>
                           Inr (Encoded ''application/json;charset=UTF-8''
                                  \<lparr>ActionStatus = ''SUCCESS'',
                                   Operations = handler_loop partnerID (Entitlements entitlementsData) [],
                                   FailureReason = '''', FailureDescription = '''',
                                   ErrorMessage = '''', ErrorDescription = ''''\<rparr>)))))"

section \<open>What a run does besides replying\<close>

text \<open>
  Besides writing its reply the handler calls \<open>log.Printf\<close>, and \<open>loadEntitlements\<close>
  calls \<open>ioutil.ReadFile\<close>. \<open>Logged\<close> carries the formatted message of one call of
  \<open>log.Printf\<close> (without the time stamp that the log package puts in front), \<open>FileRead\<close>
  the path given to one call of \<open>ioutil.ReadFile\<close>.
\<close>

datatype effect =
    is_Logged: Logged string
  | FileRead string

text \<open>The verb \<open>%v\<close> prints a slice of strings between brackets, the elements separated by a space.\<close>

fun join_space :: "string list \<Rightarrow> string" where
  "join_space [] = ''''"
| "join_space [x] = x"
| "join_space (x # y # ys) = x @ '' '' @ join_space (y # ys)"

definition sprint_v :: "string list \<Rightarrow> string" where
  "sprint_v values = ''['' @ join_space values @ '']''"

text \<open>The two nested loops over \<open>r.Header\<close> (main.go 115-119).\<close>

fun header_lines :: "(string \<times> string list) list \<Rightarrow> effect list" where
  "header_lines [] = []"
| "header_lines ((name, values) # rest) =
     map (\<lambda>value. Logged (''  '' @ name @ '': '' @ value)) values @ header_lines rest"

text \<open>The lines about \<open>AdditionalHeaders\<close> (main.go 147-152).\<close>

definition additional_header_lines :: "Header list \<Rightarrow> effect list" where
  "additional_header_lines hs =
     (if length hs > 0
      then Logged ''AdditionalHeaders:'' #
           map (\<lambda>h. Logged (''  '' @ Header.Name h @ '': '' @ sprint_v (Header.Value h))) hs
      else [])"

text \<open>The line that the loop over the entitlements prints for each operation it appends.\<close>

fun handler_loop_trace :: "string \<Rightarrow> Entitlement list \<Rightarrow> effect list" where
  "handler_loop_trace partnerID [] = []"
| "handler_loop_trace partnerID (entitlement # rest) =
     (if Type (Subject entitlement) = ''partner'' \<and> ID (Subject entitlement) = partnerID
      then Logged (''Added scope: '' @ (Type (Subject entitlement) @ '':'' @ Action entitlement) @
                   '' for partner '' @ partnerID) # handler_loop_trace partnerID rest
      else handler_loop_trace partnerID rest)"

text \<open>
  The effects of one run of \<open>handler\<close>, in the order in which they happen, along the same
  branches as \<open>handler\<close> above. A request refused for its method is answered before
  anything is logged; a panic would end the run where it occurs.
\<close>

definition handler_trace :: "env \<Rightarrow> http_request \<Rightarrow> effect list" where
  "handler_trace e r =
     (if Method r \<noteq> ''POST'' then []
      else
        [Logged ''=== Full Request Details ==='',
         Logged (''Method: '' @ Method r),
         Logged (''URL: '' @ URL r),
         Logged (''Protocol: '' @ Proto r),
         Logged (''Remote Address: '' @ RemoteAddr r),
         Logged ''Headers:''] @
        header_lines (Header r) @
        (case Body r of
           Inl err \<Rightarrow> [Logged (''Error reading request body: '' @ err)]
         | Inr bodyBytes \<Rightarrow>
             [Logged (''Body: '' @ bodyBytes), Logged ''=== End Request Details ===''] @
             (case decodeRequest e bodyBytes of
                Inl err \<Rightarrow> [Logged (''Error decoding request: '' @ err)]
              | Inr req \<Rightarrow>
                  [Logged (''Processing '' @ ActionType req @ '' for client: '' @
                           ClientID (Request (Event req)))] @
                  additional_header_lines (AdditionalHeaders (Request (Event req))) @
                  (case getHeaderValue (AdditionalHeaders (Request (Event req))) ''x-b2b-usp-partner'' of
                     Inl p \<Rightarrow> []
                   | Inr partnerID \<Rightarrow>
                       if partnerID = '''' then
                         [Logged ''Warning: x-b2b-usp-partner header not found in AdditionalHeaders'']
                       else
                         [Logged (''Partner ID from AdditionalHeaders: '' @ partnerID),
                          FileRead ''entitlements.json''] @
                         (case loadEntitlements e of
                            Inl err \<Rightarrow> [Logged (''Error loading entitlements: '' @ err)]
                          | Inr entitlementsData \<Rightarrow>
                              handler_loop_trace partnerID (Entitlements entitlementsData))))))"

section \<open>Vocabulary of the statements\<close>

text \<open>The handler got as far as a decoded request \<open>req\<close>: a POST whose body was read and decoded.\<close>

definition accepted :: "env \<Rightarrow> http_request \<Rightarrow> Request \<Rightarrow> bool" where
  "accepted e r req =
     (Method r = ''POST'' \<and>
      (case Body r of Inl err \<Rightarrow> False | Inr bodyBytes \<Rightarrow> decodeRequest e bodyBytes = Inr req))"

text \<open>The operations a run of the handler sends back; none unless a \<open>Response\<close> was encoded.\<close>

fun emitted :: "panic + reply \<Rightarrow> OperationResponse list" where
  "emitted (Inr (Encoded contentType resp)) = Operations resp"
| "emitted (Inr (http_Error msg code)) = []"
| "emitted (Inl p) = []"

text \<open>The \<open>actionStatus\<close> a run of the handler sends back, if it sends a \<open>Response\<close>.\<close>

fun actionStatus :: "panic + reply \<Rightarrow> string option" where
  "actionStatus (Inr (Encoded contentType resp)) = Some (ActionStatus resp)"
| "actionStatus (Inr (http_Error msg code)) = None"
| "actionStatus (Inl p) = None"

section \<open>Concrete inputs\<close>

text \<open>
  An environment whose request decoder yields \<open>req\<close>, whose file system answers every
  read with \<open>file\<close>, and whose entitlement decoder yields \<open>parsed\<close>.
\<close>

definition env_of :: "Request \<Rightarrow> string + string \<Rightarrow> string + EntitlementsData \<Rightarrow> env" where
  "env_of req file parsed =
     \<lparr>decodeRequest = (\<lambda>bodyBytes. Inr req), readFile = (\<lambda>path. file),
      unmarshalEntitlements = (\<lambda>data. parsed)\<rparr>"

text \<open>The example request of the README, carrying the given additional headers.\<close>

definition request_with :: "Header list \<Rightarrow> Request" where
  "request_with hs =
     \<lparr>ActionType = ''PRE_ISSUE_ACCESS_TOKEN'',
      Event = \<lparr>Request = \<lparr>ClientID = ''1u31N7of6gCNR9FqkG1neSlsF_Qa'',
                           GrantType = ''authorization_code'', AdditionalHeaders = hs\<rparr>,
               AccessToken = \<lparr>Scopes = [''openid'', ''profile''],
                               Claims = [\<lparr>Claim.Name = ''sub'', Claim.Value = JString ''user123''\<rparr>]\<rparr>,
               RefreshToken = None\<rparr>,
      AllowedOperations = []\<rparr>"

definition post :: "string \<Rightarrow> http_request" where
  "post bodyBytes =
     \<lparr>Method = ''POST'', Body = Inr bodyBytes, URL = ''/token-validation'', Proto = ''HTTP/1.1'',
      RemoteAddr = ''10.0.0.7:41822'', Header = [(''Content-Type'', [''application/json''])]\<rparr>"

definition partner_header :: "string list \<Rightarrow> Header" where
  "partner_header vs = \<lparr>Header.Name = ''x-b2b-usp-partner'', Header.Value = vs\<rparr>"

definition grant :: "string \<Rightarrow> string \<Rightarrow> string \<Rightarrow> string \<Rightarrow> Entitlement" where
  "grant eid ty sid act =
     \<lparr>EntitlementID = eid, Subject = \<lparr>Type = ty, ID = sid\<rparr>, Action = act,
      Object = [], Constraints = []\<rparr>"

text \<open>
  Snapshots: the single record and the two records of the specification's scenarios, and a
  snapshot in which one record of partner \<open>P1\<close> occurs twice.
\<close>

definition snapshot_acme :: EntitlementsData where
  "snapshot_acme = \<lparr>Entitlements = [grant ''e1'' ''partner'' ''ACME'' ''read'']\<rparr>"

definition snapshot_two :: EntitlementsData where
  "snapshot_two =
     \<lparr>Entitlements = [grant ''e1'' ''partner'' ''P1'' ''invoke'', grant ''e2'' ''partner'' ''P2'' ''view'']\<rparr>"

definition snapshot_repeated :: EntitlementsData where
  "snapshot_repeated =
     \<lparr>Entitlements = [grant ''e1'' ''partner'' ''P1'' ''read'', grant ''e2'' ''partner'' ''P2'' ''view'',
                       grant ''e3'' ''partner'' ''P1'' ''invoke'', grant ''e4'' ''user'' ''P1'' ''edit'',
                       grant ''e3'' ''partner'' ''P1'' ''invoke'']\<rparr>"

text \<open>
  A second request: other client, grant type, scopes, claims, refresh token, action type
  and allowed operations, with the additional headers left open.
\<close>

definition other_request_with :: "Header list \<Rightarrow> Request" where
  "other_request_with hs =
     \<lparr>ActionType = ''PRE_ISSUE_ACCESS_TOKEN'',
      Event = \<lparr>Request = \<lparr>ClientID = ''another-client'', GrantType = ''client_credentials'',
                           AdditionalHeaders = hs\<rparr>,
               AccessToken = \<lparr>Scopes = [''admin''],
                               Claims = [\<lparr>Claim.Name = ''aud'', Claim.Value = JArray [JString ''api'']\<rparr>]\<rparr>,
               RefreshToken = Some \<lparr>Claims = [\<lparr>Claim.Name = ''active'', Claim.Value = JBool True\<rparr>]\<rparr>\<rparr>,
      AllowedOperations = [\<lparr>Operation.Op = ''add'', Paths = [''/accessToken/scopes/'']\<rparr>]\<rparr>"

text \<open>Environments in which \<open>entitlements.json\<close> cannot be read, or is read and cannot be parsed.\<close>

definition env_unreadable :: "Request \<Rightarrow> env" where
  "env_unreadable req =
     env_of req (Inl ''open entitlements.json: no such file or directory'')
       (Inl ''unexpected end of JSON input'')"

definition env_unparseable :: "Request \<Rightarrow> env" where
  "env_unparseable req = env_of req (Inr ''{'') (Inl ''unexpected end of JSON input'')"

section \<open>The loop and the header scan in closed form\<close>

lemma handler_loop_append:
  "handler_loop pid es acc =
     acc @ map (\<lambda>e. \<lparr>OperationResponse.Op = ''add'', Path = ''/accessToken/scopes/-'',
                       Value = JString (Type (Subject e) @ '':'' @ Action e)\<rparr>)
               (filter (\<lambda>e. Type (Subject e) = ''partner'' \<and> ID (Subject e) = pid) es)"
  by (induction es arbitrary: acc) auto

lemma getHeaderValue_find:
  "getHeaderValue hs n =
     Inr (case find (\<lambda>h. Header.Name h = n \<and> Header.Value h \<noteq> []) hs of
            None \<Rightarrow> '''' | Some h \<Rightarrow> hd (Header.Value h))"
  by (induction hs) (auto simp: index_def hd_conv_nth)

lemma getHeaderValue_absent:
  "\<forall>h\<in>set hs. Header.Name h \<noteq> n \<Longrightarrow> getHeaderValue hs n = Inr ''''"
  by (induction hs) auto

lemma getHeaderValue_skip:
  "getHeaderValue (pre @ \<lparr>Header.Name = n, Header.Value = []\<rparr> # rest) n = getHeaderValue (pre @ rest) n"
  by (induction pre) auto

lemma handler_no_partner:
  assumes "accepted e r req"
    and "getHeaderValue (AdditionalHeaders (Request (Event req))) ''x-b2b-usp-partner'' = Inr ''''"
  shows "handler e r =
           Inr (Encoded ''application/json;charset=UTF-8''
                  \<lparr>ActionStatus = ''SUCCESS'', Operations = [],
                   FailureReason = '''', FailureDescription = '''',
                   ErrorMessage = '''', ErrorDescription = ''''\<rparr>)"
  using assms by (auto simp: handler_def accepted_def split: sum.splits)

lemma handler_partner:
  assumes "accepted e r req"
    and "getHeaderValue (AdditionalHeaders (Request (Event req))) ''x-b2b-usp-partner'' = Inr pid"
    and "pid \<noteq> ''''"
  shows "handler e r =
           (case loadEntitlements e of
              Inl err \<Rightarrow> Inr (http_Error ''Internal server error'' 500)
            | Inr d \<Rightarrow>
                Inr (Encoded ''application/json;charset=UTF-8''
                  \<lparr>ActionStatus = ''SUCCESS'',
                   Operations =
                     map (\<lambda>x. \<lparr>OperationResponse.Op = ''add'', Path = ''/accessToken/scopes/-'',
                                 Value = JString (Type (Subject x) @ '':'' @ Action x)\<rparr>)
                       (filter (\<lambda>x. Type (Subject x) = ''partner'' \<and> ID (Subject x) = pid)
                          (Entitlements d)),
                   FailureReason = '''', FailureDescription = '''',
                   ErrorMessage = '''', ErrorDescription = ''''\<rparr>))"
  using assms by (auto simp: handler_def accepted_def handler_loop_append split: sum.splits)

lemma accepted_env_of: "accepted (env_of req file parsed) (post bodyBytes) req"
  by (simp add: accepted_def env_of_def post_def)

lemma header_lines_logged: "filter (\<lambda>x. \<not> is_Logged x) (header_lines hs) = []"
  by (induction hs rule: header_lines.induct) (auto simp: filter_empty_conv)

lemma additional_header_lines_logged:
  "filter (\<lambda>x. \<not> is_Logged x) (additional_header_lines hs) = []"
  by (auto simp: additional_header_lines_def filter_empty_conv)

lemma handler_loop_trace_logged:
  "filter (\<lambda>x. \<not> is_Logged x) (handler_loop_trace partnerID es) = []"
  by (induction es) auto

lemma unlogged_effects:
  assumes "accepted e r req"
  shows "filter (\<lambda>x. \<not> is_Logged x) (handler_trace e r) =
           (if getHeaderValue (AdditionalHeaders (Request (Event req))) ''x-b2b-usp-partner'' = Inr ''''
            then [] else [FileRead ''entitlements.json''])"
proof -
  obtain v where v: "getHeaderValue (AdditionalHeaders (Request (Event req))) ''x-b2b-usp-partner'' = Inr v"
    by (simp add: getHeaderValue_find)
  with assms show ?thesis
    by (auto simp: handler_trace_def accepted_def header_lines_logged additional_header_lines_logged
          handler_loop_trace_logged split: sum.splits)
qed

section \<open>Extraction of the partner identifier\<close>

text \<open>
  C10. For every list of headers, \<open>getHeaderValue\<close> returns the first element of the
  value list of the first entry whose name matches and whose value list is non-empty (the
  empty string when there is no such entry). An entry with a matching name and an empty
  value list is skipped wherever it stands, so a later matching entry still supplies the
  value. The access \<open>header.Value[0]\<close> is never out of bounds.
\<close>

theorem getHeaderValue_first_nonempty_entry:
  "(case find (\<lambda>h. Header.Name h = headerName \<and> Header.Value h \<noteq> []) headers of
      None \<Rightarrow> getHeaderValue headers headerName = Inr ''''
    | Some h \<Rightarrow> (\<exists>v vs. Header.Value h = v # vs \<and> getHeaderValue headers headerName = Inr v))
   \<and> getHeaderValue (pre @ \<lparr>Header.Name = headerName, Header.Value = []\<rparr> # rest) headerName
       = getHeaderValue (pre @ rest) headerName
   \<and> getHeaderValue headers headerName \<noteq> Inl IndexOutOfRange"
proof (intro conjI)
  show "case find (\<lambda>h. Header.Name h = headerName \<and> Header.Value h \<noteq> []) headers of
          None \<Rightarrow> getHeaderValue headers headerName = Inr ''''
        | Some h \<Rightarrow> (\<exists>v vs. Header.Value h = v # vs \<and> getHeaderValue headers headerName = Inr v)"
  proof (cases "find (\<lambda>h. Header.Name h = headerName \<and> Header.Value h \<noteq> []) headers")
    case None
    then show ?thesis by (simp add: getHeaderValue_find)
  next
    case (Some h)
    then have "Header.Value h \<noteq> []" by (auto simp: find_Some_iff)
    then obtain v vs where "Header.Value h = v # vs" by (cases "Header.Value h") auto
    with Some show ?thesis by (simp add: getHeaderValue_find)
  qed
  show "getHeaderValue (pre @ \<lparr>Header.Name = headerName, Header.Value = []\<rparr> # rest) headerName
          = getHeaderValue (pre @ rest) headerName"
    by (rule getHeaderValue_skip)
  show "getHeaderValue headers headerName \<noteq> Inl IndexOutOfRange"
    by (simp add: getHeaderValue_find)
qed

theorem getHeaderValue_first_nonempty_entry_witness:
  "getHeaderValue [\<lparr>Header.Name = ''other'', Header.Value = [''A'']\<rparr>, partner_header [],
                   partner_header [''B'', ''C''], partner_header [''D'']] ''x-b2b-usp-partner''
     = Inr ''B''
   \<and> getHeaderValue ([\<lparr>Header.Name = ''other'', Header.Value = [''A'']\<rparr>] @
        \<lparr>Header.Name = ''x-b2b-usp-partner'', Header.Value = []\<rparr> # [partner_header [''B'', ''C'']])
        ''x-b2b-usp-partner''
     = getHeaderValue ([\<lparr>Header.Name = ''other'', Header.Value = [''A'']\<rparr>] @ [partner_header [''B'', ''C'']])
        ''x-b2b-usp-partner''"
  using getHeaderValue_first_nonempty_entry
    [where headerName = "''x-b2b-usp-partner''"
       and headers = "[\<lparr>Header.Name = ''other'', Header.Value = [''A'']\<rparr>, partner_header [],
          partner_header [''B'', ''C''], partner_header [''D'']]"
       and pre = "[\<lparr>Header.Name = ''other'', Header.Value = [''A'']\<rparr>]"
       and rest = "[partner_header [''B'', ''C'']]"]
  by (simp add: partner_header_def)

text \<open>
  C6. The partner identifier is looked up under the name \<open>x-b2b-usp-partner\<close> by exact
  comparison of the strings: when no entry carries exactly that name nothing is found, and
  an entry whose name differs only in letter case is such a case. When the first entry of
  that name carries several values, the first of them is the result.
\<close>

theorem partner_header_exact_name_first_value:
  "((\<forall>h\<in>set headers. Header.Name h \<noteq> ''x-b2b-usp-partner'') \<longrightarrow>
      getHeaderValue headers ''x-b2b-usp-partner'' = Inr '''')
   \<and> getHeaderValue [\<lparr>Header.Name = ''X-B2B-USP-Partner'', Header.Value = v # vs\<rparr>]
         ''x-b2b-usp-partner'' = Inr ''''
   \<and> (find (\<lambda>h. Header.Name h = ''x-b2b-usp-partner'') headers = Some h \<and> Header.Value h = v # vs \<longrightarrow>
        getHeaderValue headers ''x-b2b-usp-partner'' = Inr v)"
proof (intro conjI impI)
  assume "\<forall>h\<in>set headers. Header.Name h \<noteq> ''x-b2b-usp-partner''"
  then show "getHeaderValue headers ''x-b2b-usp-partner'' = Inr ''''"
    by (rule getHeaderValue_absent)
next
  show "getHeaderValue [\<lparr>Header.Name = ''X-B2B-USP-Partner'', Header.Value = v # vs\<rparr>]
          ''x-b2b-usp-partner'' = Inr ''''"
    by simp
next
  assume a: "find (\<lambda>h. Header.Name h = ''x-b2b-usp-partner'') headers = Some h \<and> Header.Value h = v # vs"
  have "find (\<lambda>h. Header.Name h = ''x-b2b-usp-partner'') hs = Some h \<Longrightarrow> Header.Value h = v # vs \<Longrightarrow>
          getHeaderValue hs ''x-b2b-usp-partner'' = Inr v" for hs
    by (induction hs) (auto simp: index_def split: if_splits)
  with a show "getHeaderValue headers ''x-b2b-usp-partner'' = Inr v" by blast
qed

theorem partner_header_exact_name_first_value_witness:
  "getHeaderValue [\<lparr>Header.Name = ''X-B2B-USP-Partner'', Header.Value = [''P0'']\<rparr>,
                     \<lparr>Header.Name = ''x-b2b-usp-partner '', Header.Value = [''P9'']\<rparr>]
        ''x-b2b-usp-partner'' = Inr ''''
   \<and> find (\<lambda>h. Header.Name h = ''x-b2b-usp-partner'')
        [\<lparr>Header.Name = ''X-B2B-USP-Partner'', Header.Value = [''P0'']\<rparr>, partner_header [''P1'', ''P2'']]
       = Some (partner_header [''P1'', ''P2''])
   \<and> getHeaderValue
        [\<lparr>Header.Name = ''X-B2B-USP-Partner'', Header.Value = [''P0'']\<rparr>, partner_header [''P1'', ''P2'']]
        ''x-b2b-usp-partner'' = Inr ''P1''"
  using partner_header_exact_name_first_value
    [where headers = "[\<lparr>Header.Name = ''X-B2B-USP-Partner'', Header.Value = [''P0'']\<rparr>,
          \<lparr>Header.Name = ''x-b2b-usp-partner '', Header.Value = [''P9'']\<rparr>]"]
    partner_header_exact_name_first_value
    [where headers = "[\<lparr>Header.Name = ''X-B2B-USP-Partner'', Header.Value = [''P0'']\<rparr>,
          partner_header [''P1'', ''P2'']]"
       and h = "partner_header [''P1'', ''P2'']" and v = "''P1''" and vs = "[''P2'']"]
  by (simp add: partner_header_def)

section \<open>Events without a partner identifier\<close>

text \<open>
  C3. For every event whose additional headers contain no entry named
  \<open>x-b2b-usp-partner\<close>, or for which the extracted value is the empty string, the
  handler answers with \<open>actionStatus\<close> SUCCESS and no operations, whatever the
  environment holds as entitlement snapshot (readable or not).
\<close>

theorem no_partner_success_without_operations:
  assumes "accepted e r req"
    and "(\<forall>h\<in>set (AdditionalHeaders (Request (Event req))). Header.Name h \<noteq> ''x-b2b-usp-partner'')
         \<or> getHeaderValue (AdditionalHeaders (Request (Event req))) ''x-b2b-usp-partner'' = Inr ''''"
  shows "handler e r =
           Inr (Encoded ''application/json;charset=UTF-8''
                  \<lparr>ActionStatus = ''SUCCESS'', Operations = [],
                   FailureReason = '''', FailureDescription = '''',
                   ErrorMessage = '''', ErrorDescription = ''''\<rparr>)
         \<and> actionStatus (handler e r) = Some ''SUCCESS'' \<and> emitted (handler e r) = []"
proof -
  from assms(2)
  have "getHeaderValue (AdditionalHeaders (Request (Event req))) ''x-b2b-usp-partner'' = Inr ''''"
    using getHeaderValue_absent by blast
  with assms(1) show ?thesis by (simp add: handler_no_partner)
qed

theorem no_partner_success_without_operations_witness:
  "accepted
     (env_of (request_with [\<lparr>Header.Name = ''X-B2B-USP-Partner'', Header.Value = [''P1'']\<rparr>])
        (Inr ''snapshot'') (Inr \<lparr>Entitlements = [grant ''e1'' ''partner'' ''P1'' ''invoke'']\<rparr>))
     (post ''body'')
     (request_with [\<lparr>Header.Name = ''X-B2B-USP-Partner'', Header.Value = [''P1'']\<rparr>])
   \<and> emitted (handler
        (env_of (request_with [\<lparr>Header.Name = ''X-B2B-USP-Partner'', Header.Value = [''P1'']\<rparr>])
           (Inr ''snapshot'') (Inr \<lparr>Entitlements = [grant ''e1'' ''partner'' ''P1'' ''invoke'']\<rparr>))
        (post ''body'')) = []
   \<and> getHeaderValue (AdditionalHeaders (Request (Event (request_with [partner_header [''''], partner_header [''P1'']]))))
        ''x-b2b-usp-partner'' = Inr ''''
   \<and> actionStatus (handler
        (env_of (request_with [partner_header [''''], partner_header [''P1'']])
           (Inl ''open entitlements.json: no such file or directory'') (Inl ''unexpected end of JSON input''))
        (post ''body'')) = Some ''SUCCESS''"
proof -
  have a: "accepted (env_of req contents parsed) (post ''body'') req" for req contents parsed
    by (rule accepted_env_of)
  have h1: "\<forall>h\<in>set (AdditionalHeaders (Request (Event
               (request_with [\<lparr>Header.Name = ''X-B2B-USP-Partner'', Header.Value = [''P1'']\<rparr>])))).
             Header.Name h \<noteq> ''x-b2b-usp-partner''"
    by (simp add: request_with_def)
  have h2: "getHeaderValue (AdditionalHeaders (Request (Event
              (request_with [partner_header [''''], partner_header [''P1'']])))) ''x-b2b-usp-partner'' = Inr ''''"
    by (simp add: request_with_def partner_header_def index_def)
  show ?thesis
    using no_partner_success_without_operations [OF a disjI1, OF h1]
      no_partner_success_without_operations [OF a disjI2, OF h2] a h2
    by simp
qed

section \<open>Events with a partner identifier\<close>

text \<open>
  C1. For every event from which a non-empty partner identifier was extracted and every
  entitlement snapshot that was loaded, the operations of the reply are, record by record,
  one operation for each record whose \<open>subject.type\<close> is the string \<open>partner\<close> and whose
  \<open>subject.id\<close> is the partner identifier (equality of strings), its value the string
  \<open>subject.type\<close>, a colon, \<open>action\<close>; the other records contribute nothing.
\<close>

theorem one_operation_per_matching_record:
  assumes "accepted e r req"
    and "getHeaderValue (AdditionalHeaders (Request (Event req))) ''x-b2b-usp-partner'' = Inr partnerID"
    and "partnerID \<noteq> ''''"
    and "loadEntitlements e = Inr snapshot"
  shows "emitted (handler e r) =
           map (\<lambda>x. \<lparr>OperationResponse.Op = ''add'', Path = ''/accessToken/scopes/-'',
                       Value = JString (Type (Subject x) @ '':'' @ Action x)\<rparr>)
             (filter (\<lambda>x. Type (Subject x) = ''partner'' \<and> ID (Subject x) = partnerID)
                (Entitlements snapshot))"
  using handler_partner [OF assms(1-3)] assms(4) by simp

theorem one_operation_per_matching_record_witness:
  "accepted
     (env_of (request_with [partner_header [''P1'']]) (Inr ''snapshot'')
        (Inr \<lparr>Entitlements = [grant ''e1'' ''partner'' ''P1'' ''invoke'', grant ''e2'' ''partner'' ''P1*'' ''all'',
                               grant ''e3'' ''user'' ''P1'' ''edit'', grant ''e4'' ''partner'' ''P'' ''list'',
                               grant ''e5'' ''Partner'' ''P1'' ''drop'', grant ''e6'' ''partner'' ''P1'' ''view'']\<rparr>))
     (post ''body'') (request_with [partner_header [''P1'']])
   \<and> getHeaderValue (AdditionalHeaders (Request (Event (request_with [partner_header [''P1'']]))))
        ''x-b2b-usp-partner'' = Inr ''P1''
   \<and> emitted (handler
        (env_of (request_with [partner_header [''P1'']]) (Inr ''snapshot'')
           (Inr \<lparr>Entitlements = [grant ''e1'' ''partner'' ''P1'' ''invoke'', grant ''e2'' ''partner'' ''P1*'' ''all'',
                                  grant ''e3'' ''user'' ''P1'' ''edit'', grant ''e4'' ''partner'' ''P'' ''list'',
                                  grant ''e5'' ''Partner'' ''P1'' ''drop'', grant ''e6'' ''partner'' ''P1'' ''view'']\<rparr>))
        (post ''body''))
     = [\<lparr>OperationResponse.Op = ''add'', Path = ''/accessToken/scopes/-'', Value = JString ''partner:invoke''\<rparr>,
        \<lparr>OperationResponse.Op = ''add'', Path = ''/accessToken/scopes/-'', Value = JString ''partner:view''\<rparr>]"
proof -
  let ?snap = "\<lparr>Entitlements = [grant ''e1'' ''partner'' ''P1'' ''invoke'', grant ''e2'' ''partner'' ''P1*'' ''all'',
                               grant ''e3'' ''user'' ''P1'' ''edit'', grant ''e4'' ''partner'' ''P'' ''list'',
                               grant ''e5'' ''Partner'' ''P1'' ''drop'', grant ''e6'' ''partner'' ''P1'' ''view'']\<rparr>"
  let ?req = "request_with [partner_header [''P1'']]"
  let ?env = "env_of ?req (Inr ''snapshot'') (Inr ?snap)"
  have a: "accepted ?env (post ''body'') ?req" by (rule accepted_env_of)
  have h: "getHeaderValue (AdditionalHeaders (Request (Event ?req))) ''x-b2b-usp-partner'' = Inr ''P1''"
    by (simp add: request_with_def partner_header_def index_def)
  have n: "''P1'' \<noteq> ''''" by simp
  have l: "loadEntitlements ?env = Inr ?snap" by (simp add: loadEntitlements_def env_of_def)
  show ?thesis
    using one_operation_per_matching_record [OF a h n l] a h by (simp add: grant_def)
qed

lemma count_list_map_filter:
  "P x \<Longrightarrow> count_list xs x \<le> count_list (map f (filter P xs)) (f x)"
  by (induction xs) auto

lemma emitted_cases:
  "emitted (handler e r) = [] \<or>
   (\<exists>snapshot partnerID.
      loadEntitlements e = Inr snapshot \<and>
      emitted (handler e r) =
        map (\<lambda>x. \<lparr>OperationResponse.Op = ''add'', Path = ''/accessToken/scopes/-'',
                    Value = JString (Type (Subject x) @ '':'' @ Action x)\<rparr>)
          (filter (\<lambda>x. Type (Subject x) = ''partner'' \<and> ID (Subject x) = partnerID)
             (Entitlements snapshot)))"
  by (auto simp: handler_def handler_loop_append split: sum.splits)

text \<open>
  C4. When N records of the snapshot match the extracted partner identifier, the reply
  carries exactly N operations; the i-th operation is the one computed from the i-th
  matching record, in the order of the snapshot. Nothing is deduplicated: a matching
  record that occurs k times in the snapshot has its operation at least k times in the
  reply.
\<close>

theorem operations_follow_snapshot_order:
  assumes "accepted e r req"
    and "getHeaderValue (AdditionalHeaders (Request (Event req))) ''x-b2b-usp-partner'' = Inr partnerID"
    and "partnerID \<noteq> ''''"
    and "loadEntitlements e = Inr snapshot"
  shows "(let matching = filter (\<lambda>x. Type (Subject x) = ''partner'' \<and> ID (Subject x) = partnerID)
                           (Entitlements snapshot)
          in length (emitted (handler e r)) = length matching \<and>
             (\<forall>i<length matching.
                emitted (handler e r) ! i =
                  \<lparr>OperationResponse.Op = ''add'', Path = ''/accessToken/scopes/-'',
                   Value = JString (Type (Subject (matching ! i)) @ '':'' @ Action (matching ! i))\<rparr>))
         \<and> (\<forall>x. Type (Subject x) = ''partner'' \<and> ID (Subject x) = partnerID \<longrightarrow>
                count_list (Entitlements snapshot) x \<le>
                count_list (emitted (handler e r))
                  \<lparr>OperationResponse.Op = ''add'', Path = ''/accessToken/scopes/-'',
                   Value = JString (Type (Subject x) @ '':'' @ Action x)\<rparr>)"
proof -
  let ?f = "\<lambda>x. \<lparr>OperationResponse.Op = ''add'', Path = ''/accessToken/scopes/-'',
                   Value = JString (Type (Subject x) @ '':'' @ Action x)\<rparr>"
  let ?P = "\<lambda>x. Type (Subject x) = ''partner'' \<and> ID (Subject x) = partnerID"
  have ops: "emitted (handler e r) = map ?f (filter ?P (Entitlements snapshot))"
    using handler_partner [OF assms(1-3)] assms(4) by simp
  have "count_list (Entitlements snapshot) x \<le> count_list (emitted (handler e r)) (?f x)"
    if "?P x" for x
    unfolding ops using that by (rule count_list_map_filter [where P = ?P and f = ?f])
  then show ?thesis by (simp add: ops Let_def)
qed

theorem operations_follow_snapshot_order_witness:
  "accepted (env_of (request_with [partner_header [''P1'']]) (Inr ''snapshot'') (Inr snapshot_repeated))
     (post ''body'') (request_with [partner_header [''P1'']])
   \<and> loadEntitlements (env_of (request_with [partner_header [''P1'']]) (Inr ''snapshot'') (Inr snapshot_repeated))
       = Inr snapshot_repeated
   \<and> length (emitted (handler
        (env_of (request_with [partner_header [''P1'']]) (Inr ''snapshot'') (Inr snapshot_repeated))
        (post ''body''))) = 3
   \<and> emitted (handler
        (env_of (request_with [partner_header [''P1'']]) (Inr ''snapshot'') (Inr snapshot_repeated))
        (post ''body'')) ! 2
       = \<lparr>OperationResponse.Op = ''add'', Path = ''/accessToken/scopes/-'', Value = JString ''partner:invoke''\<rparr>
   \<and> 2 \<le> count_list (emitted (handler
        (env_of (request_with [partner_header [''P1'']]) (Inr ''snapshot'') (Inr snapshot_repeated))
        (post ''body'')))
        \<lparr>OperationResponse.Op = ''add'', Path = ''/accessToken/scopes/-'', Value = JString ''partner:invoke''\<rparr>"
proof -
  let ?req = "request_with [partner_header [''P1'']]"
  let ?env = "env_of ?req (Inr ''snapshot'') (Inr snapshot_repeated)"
  let ?ops = "emitted (handler ?env (post ''body''))"
  let ?matching = "filter (\<lambda>x. Type (Subject x) = ''partner'' \<and> ID (Subject x) = ''P1'')
                     (Entitlements snapshot_repeated)"
  have a: "accepted ?env (post ''body'') ?req" by (rule accepted_env_of)
  have h: "getHeaderValue (AdditionalHeaders (Request (Event ?req))) ''x-b2b-usp-partner'' = Inr ''P1''"
    by (simp add: request_with_def partner_header_def index_def)
  have n: "''P1'' \<noteq> ''''" by simp
  have l: "loadEntitlements ?env = Inr snapshot_repeated" by (simp add: loadEntitlements_def env_of_def)
  have m: "?matching = [grant ''e1'' ''partner'' ''P1'' ''read'', grant ''e3'' ''partner'' ''P1'' ''invoke'',
                        grant ''e3'' ''partner'' ''P1'' ''invoke'']"
    by (simp add: snapshot_repeated_def grant_def)
  note t = operations_follow_snapshot_order [OF a h n l, unfolded Let_def m]
  from t have len: "length ?ops = 3" by simp
  from t have "\<forall>i<3. ?ops ! i = \<lparr>OperationResponse.Op = ''add'', Path = ''/accessToken/scopes/-'',
      Value = JString (Type (Subject ([grant ''e1'' ''partner'' ''P1'' ''read'', grant ''e3'' ''partner'' ''P1'' ''invoke'',
                        grant ''e3'' ''partner'' ''P1'' ''invoke''] ! i)) @ '':'' @
                       Action ([grant ''e1'' ''partner'' ''P1'' ''read'', grant ''e3'' ''partner'' ''P1'' ''invoke'',
                        grant ''e3'' ''partner'' ''P1'' ''invoke''] ! i))\<rparr>"
    by simp
  then have "?ops ! 2 = \<lparr>OperationResponse.Op = ''add'', Path = ''/accessToken/scopes/-'',
      Value = JString (Type (Subject ([grant ''e1'' ''partner'' ''P1'' ''read'', grant ''e3'' ''partner'' ''P1'' ''invoke'',
                        grant ''e3'' ''partner'' ''P1'' ''invoke''] ! 2)) @ '':'' @
                       Action ([grant ''e1'' ''partner'' ''P1'' ''read'', grant ''e3'' ''partner'' ''P1'' ''invoke'',
                        grant ''e3'' ''partner'' ''P1'' ''invoke''] ! 2))\<rparr>"
    by simp
  then have nth: "?ops ! 2 = \<lparr>OperationResponse.Op = ''add'', Path = ''/accessToken/scopes/-'',
      Value = JString ''partner:invoke''\<rparr>"
    by (simp add: grant_def)
  have "Type (Subject (grant ''e3'' ''partner'' ''P1'' ''invoke'')) = ''partner'' \<and>
        ID (Subject (grant ''e3'' ''partner'' ''P1'' ''invoke'')) = ''P1''"
    by (simp add: grant_def)
  with t have "count_list (Entitlements snapshot_repeated) (grant ''e3'' ''partner'' ''P1'' ''invoke'') \<le>
      count_list ?ops \<lparr>OperationResponse.Op = ''add'', Path = ''/accessToken/scopes/-'',
         Value = JString (Type (Subject (grant ''e3'' ''partner'' ''P1'' ''invoke'')) @ '':'' @
                          Action (grant ''e3'' ''partner'' ''P1'' ''invoke''))\<rparr>"
    by blast
  then have cnt: "2 \<le> count_list ?ops \<lparr>OperationResponse.Op = ''add'', Path = ''/accessToken/scopes/-'',
         Value = JString ''partner:invoke''\<rparr>"
    by (simp add: snapshot_repeated_def grant_def)
  from a l len nth cnt show ?thesis by simp
qed

text \<open>
  C5. Whatever the request and the environment, every operation of the reply has
  \<open>op\<close> equal to \<open>add\<close> and \<open>path\<close> equal to \<open>/accessToken/scopes/-\<close>, and it comes
  from a record of the loaded snapshot whose \<open>subject.type\<close> is \<open>partner\<close>: its value is
  \<open>partner:\<close> followed by that record's action. A snapshot without any record of subject
  type \<open>partner\<close> yields no operation at all.
\<close>

theorem operations_only_add_scope_for_partner_records:
  "(\<forall>operation\<in>set (emitted (handler e r)).
      OperationResponse.Op operation = ''add'' \<and>
      Path operation = ''/accessToken/scopes/-'' \<and>
      (\<exists>snapshot x. loadEntitlements e = Inr snapshot \<and> x \<in> set (Entitlements snapshot) \<and>
         Type (Subject x) = ''partner'' \<and>
         OperationResponse.Value operation = JString (''partner:'' @ Action x)))
   \<and> ((\<forall>snapshot. loadEntitlements e = Inr snapshot \<longrightarrow>
          (\<forall>x\<in>set (Entitlements snapshot). Type (Subject x) \<noteq> ''partner'')) \<longrightarrow>
        emitted (handler e r) = [])"
proof (intro conjI ballI impI)
  fix operation
  assume mem: "operation \<in> set (emitted (handler e r))"
  then have "emitted (handler e r) \<noteq> []" by auto
  with emitted_cases [of e r] obtain snapshot partnerID where
    l: "loadEntitlements e = Inr snapshot" and
    ops: "emitted (handler e r) =
            map (\<lambda>x. \<lparr>OperationResponse.Op = ''add'', Path = ''/accessToken/scopes/-'',
                        Value = JString (Type (Subject x) @ '':'' @ Action x)\<rparr>)
              (filter (\<lambda>x. Type (Subject x) = ''partner'' \<and> ID (Subject x) = partnerID)
                 (Entitlements snapshot))"
    by blast
  from mem ops obtain x where
    x: "x \<in> set (Entitlements snapshot)" "Type (Subject x) = ''partner''" and
    op: "operation = \<lparr>OperationResponse.Op = ''add'', Path = ''/accessToken/scopes/-'',
                       Value = JString (Type (Subject x) @ '':'' @ Action x)\<rparr>"
    by auto
  from op show "OperationResponse.Op operation = ''add''" by simp
  from op show "Path operation = ''/accessToken/scopes/-''" by simp
  from op x(2) have "OperationResponse.Value operation = JString (''partner:'' @ Action x)" by simp
  with l x show "\<exists>snapshot x. loadEntitlements e = Inr snapshot \<and> x \<in> set (Entitlements snapshot) \<and>
         Type (Subject x) = ''partner'' \<and>
         OperationResponse.Value operation = JString (''partner:'' @ Action x)"
    by blast
next
  assume none: "\<forall>snapshot. loadEntitlements e = Inr snapshot \<longrightarrow>
                  (\<forall>x\<in>set (Entitlements snapshot). Type (Subject x) \<noteq> ''partner'')"
  show "emitted (handler e r) = []"
  proof (rule disjE [OF emitted_cases [of e r]])
    assume "emitted (handler e r) = []"
    then show ?thesis .
  next
    assume "\<exists>snapshot partnerID.
      loadEntitlements e = Inr snapshot \<and>
      emitted (handler e r) =
        map (\<lambda>x. \<lparr>OperationResponse.Op = ''add'', Path = ''/accessToken/scopes/-'',
                    Value = JString (Type (Subject x) @ '':'' @ Action x)\<rparr>)
          (filter (\<lambda>x. Type (Subject x) = ''partner'' \<and> ID (Subject x) = partnerID)
             (Entitlements snapshot))"
    then obtain snapshot partnerID where
      l: "loadEntitlements e = Inr snapshot" and
      ops: "emitted (handler e r) =
              map (\<lambda>x. \<lparr>OperationResponse.Op = ''add'', Path = ''/accessToken/scopes/-'',
                          Value = JString (Type (Subject x) @ '':'' @ Action x)\<rparr>)
                (filter (\<lambda>x. Type (Subject x) = ''partner'' \<and> ID (Subject x) = partnerID)
                   (Entitlements snapshot))"
      by blast
    from none l have "\<forall>x\<in>set (Entitlements snapshot). Type (Subject x) \<noteq> ''partner''" by blast
    then have "filter (\<lambda>x. Type (Subject x) = ''partner'' \<and> ID (Subject x) = partnerID)
                 (Entitlements snapshot) = []"
      by (simp add: filter_empty_conv)
    with ops show ?thesis by simp
  qed
qed

theorem operations_only_add_scope_for_partner_records_witness:
  "\<lparr>OperationResponse.Op = ''add'', Path = ''/accessToken/scopes/-'', Value = JString ''partner:read''\<rparr>
     \<in> set (emitted (handler
          (env_of (request_with [partner_header [''P1'']]) (Inr ''snapshot'') (Inr snapshot_repeated))
          (post ''body'')))
   \<and> (\<exists>x. x \<in> set (Entitlements snapshot_repeated) \<and> Type (Subject x) = ''partner'' \<and>
          JString ''partner:read'' = JString (''partner:'' @ Action x))
   \<and> Type (Subject (grant ''e4'' ''user'' ''P1'' ''edit'')) = ''user''
   \<and> emitted (handler
        (env_of (request_with [partner_header [''P1'']]) (Inr ''snapshot'')
           (Inr \<lparr>Entitlements = [grant ''e4'' ''user'' ''P1'' ''edit'']\<rparr>))
        (post ''body'')) = []"
proof -
  let ?req = "request_with [partner_header [''P1'']]"
  let ?env = "env_of ?req (Inr ''snapshot'') (Inr snapshot_repeated)"
  let ?env' = "env_of ?req (Inr ''snapshot'') (Inr \<lparr>Entitlements = [grant ''e4'' ''user'' ''P1'' ''edit'']\<rparr>)"
  let ?op = "\<lparr>OperationResponse.Op = ''add'', Path = ''/accessToken/scopes/-'', Value = JString ''partner:read''\<rparr>"
  have mem: "?op \<in> set (emitted (handler ?env (post ''body'')))"
    by (simp add: handler_def env_of_def request_with_def post_def partner_header_def index_def
          loadEntitlements_def snapshot_repeated_def grant_def)
  have l: "loadEntitlements ?env = Inr snapshot_repeated"
    by (simp add: loadEntitlements_def env_of_def)
  have l': "loadEntitlements ?env' = Inr \<lparr>Entitlements = [grant ''e4'' ''user'' ''P1'' ''edit'']\<rparr>"
    by (simp add: loadEntitlements_def env_of_def)
  have none: "\<forall>x\<in>set (Entitlements \<lparr>Entitlements = [grant ''e4'' ''user'' ''P1'' ''edit'']\<rparr>).
                Type (Subject x) \<noteq> ''partner''"
    by (simp add: grant_def)
  from operations_only_add_scope_for_partner_records [of ?env "post ''body''"] mem
  have "\<exists>snapshot x. loadEntitlements ?env = Inr snapshot \<and> x \<in> set (Entitlements snapshot) \<and>
          Type (Subject x) = ''partner'' \<and>
          OperationResponse.Value ?op = JString (''partner:'' @ Action x)"
    by blast
  with l have ex: "\<exists>x. x \<in> set (Entitlements snapshot_repeated) \<and> Type (Subject x) = ''partner'' \<and>
          JString ''partner:read'' = JString (''partner:'' @ Action x)"
    by simp
  from operations_only_add_scope_for_partner_records [of ?env' "post ''body''"] l' none
  have "emitted (handler ?env' (post ''body'')) = []"
    by simp
  moreover have "Type (Subject (grant ''e4'' ''user'' ''P1'' ''edit'')) = ''user''"
    by (simp add: grant_def)
  ultimately show ?thesis using mem ex by blast
qed

text \<open>
  C8. The two scenarios of the specification. A snapshot whose only record grants
  \<open>read\<close> to partner \<open>ACME\<close>, with the header value \<open>ACME\<close>, gives SUCCESS and the single
  operation that adds \<open>partner:read\<close>. A snapshot of two records, \<open>invoke\<close> for partner
  \<open>P1\<close> followed by \<open>view\<close> for partner \<open>P2\<close>, with the header value \<open>P1\<close>, gives
  SUCCESS and the single operation that adds \<open>partner:invoke\<close>.
\<close>

theorem specification_scenarios:
  assumes "accepted e r req"
    and "loadEntitlements e = Inr snapshot"
  shows "(getHeaderValue (AdditionalHeaders (Request (Event req))) ''x-b2b-usp-partner'' = Inr ''ACME'' \<and>
          Entitlements snapshot = [x] \<and>
          Subject x = \<lparr>Type = ''partner'', ID = ''ACME''\<rparr> \<and> Action x = ''read'' \<longrightarrow>
          handler e r =
            Inr (Encoded ''application/json;charset=UTF-8''
                   \<lparr>ActionStatus = ''SUCCESS'',
                    Operations = [\<lparr>OperationResponse.Op = ''add'', Path = ''/accessToken/scopes/-'',
                                   Value = JString ''partner:read''\<rparr>],
                    FailureReason = '''', FailureDescription = '''',
                    ErrorMessage = '''', ErrorDescription = ''''\<rparr>))
       \<and> (getHeaderValue (AdditionalHeaders (Request (Event req))) ''x-b2b-usp-partner'' = Inr ''P1'' \<and>
          Entitlements snapshot = [y, z] \<and>
          Subject y = \<lparr>Type = ''partner'', ID = ''P1''\<rparr> \<and> Action y = ''invoke'' \<and>
          Subject z = \<lparr>Type = ''partner'', ID = ''P2''\<rparr> \<and> Action z = ''view'' \<longrightarrow>
          handler e r =
            Inr (Encoded ''application/json;charset=UTF-8''
                   \<lparr>ActionStatus = ''SUCCESS'',
                    Operations = [\<lparr>OperationResponse.Op = ''add'', Path = ''/accessToken/scopes/-'',
                                   Value = JString ''partner:invoke''\<rparr>],
                    FailureReason = '''', FailureDescription = '''',
                    ErrorMessage = '''', ErrorDescription = ''''\<rparr>))"
proof (intro conjI impI)
  assume s: "getHeaderValue (AdditionalHeaders (Request (Event req))) ''x-b2b-usp-partner'' = Inr ''ACME'' \<and>
          Entitlements snapshot = [x] \<and>
          Subject x = \<lparr>Type = ''partner'', ID = ''ACME''\<rparr> \<and> Action x = ''read''"
  then have h: "getHeaderValue (AdditionalHeaders (Request (Event req))) ''x-b2b-usp-partner'' = Inr ''ACME''"
    by simp
  have n: "''ACME'' \<noteq> ''''" by simp
  show "handler e r =
            Inr (Encoded ''application/json;charset=UTF-8''
                   \<lparr>ActionStatus = ''SUCCESS'',
                    Operations = [\<lparr>OperationResponse.Op = ''add'', Path = ''/accessToken/scopes/-'',
                                   Value = JString ''partner:read''\<rparr>],
                    FailureReason = '''', FailureDescription = '''',
                    ErrorMessage = '''', ErrorDescription = ''''\<rparr>)"
    using handler_partner [OF assms(1) h n] assms(2) s by simp
next
  assume s: "getHeaderValue (AdditionalHeaders (Request (Event req))) ''x-b2b-usp-partner'' = Inr ''P1'' \<and>
          Entitlements snapshot = [y, z] \<and>
          Subject y = \<lparr>Type = ''partner'', ID = ''P1''\<rparr> \<and> Action y = ''invoke'' \<and>
          Subject z = \<lparr>Type = ''partner'', ID = ''P2''\<rparr> \<and> Action z = ''view''"
  then have h: "getHeaderValue (AdditionalHeaders (Request (Event req))) ''x-b2b-usp-partner'' = Inr ''P1''"
    by simp
  have n: "''P1'' \<noteq> ''''" by simp
  show "handler e r =
            Inr (Encoded ''application/json;charset=UTF-8''
                   \<lparr>ActionStatus = ''SUCCESS'',
                    Operations = [\<lparr>OperationResponse.Op = ''add'', Path = ''/accessToken/scopes/-'',
                                   Value = JString ''partner:invoke''\<rparr>],
                    FailureReason = '''', FailureDescription = '''',
                    ErrorMessage = '''', ErrorDescription = ''''\<rparr>)"
    using handler_partner [OF assms(1) h n] assms(2) s by simp
qed

theorem specification_scenarios_witness:
  "accepted (env_of (request_with [partner_header [''ACME'']]) (Inr ''snapshot'') (Inr snapshot_acme))
     (post ''body'') (request_with [partner_header [''ACME'']])
   \<and> loadEntitlements (env_of (request_with [partner_header [''ACME'']]) (Inr ''snapshot'') (Inr snapshot_acme))
       = Inr snapshot_acme
   \<and> handler (env_of (request_with [partner_header [''ACME'']]) (Inr ''snapshot'') (Inr snapshot_acme))
       (post ''body'')
       = Inr (Encoded ''application/json;charset=UTF-8''
                \<lparr>ActionStatus = ''SUCCESS'',
                 Operations = [\<lparr>OperationResponse.Op = ''add'', Path = ''/accessToken/scopes/-'',
                                Value = JString ''partner:read''\<rparr>],
                 FailureReason = '''', FailureDescription = '''',
                 ErrorMessage = '''', ErrorDescription = ''''\<rparr>)
   \<and> accepted (env_of (request_with [partner_header [''P1'']]) (Inr ''snapshot'') (Inr snapshot_two))
       (post ''body'') (request_with [partner_header [''P1'']])
   \<and> loadEntitlements (env_of (request_with [partner_header [''P1'']]) (Inr ''snapshot'') (Inr snapshot_two))
       = Inr snapshot_two
   \<and> handler (env_of (request_with [partner_header [''P1'']]) (Inr ''snapshot'') (Inr snapshot_two))
       (post ''body'')
       = Inr (Encoded ''application/json;charset=UTF-8''
                \<lparr>ActionStatus = ''SUCCESS'',
                 Operations = [\<lparr>OperationResponse.Op = ''add'', Path = ''/accessToken/scopes/-'',
                                Value = JString ''partner:invoke''\<rparr>],
                 FailureReason = '''', FailureDescription = '''',
                 ErrorMessage = '''', ErrorDescription = ''''\<rparr>)"
proof -
  let ?reqA = "request_with [partner_header [''ACME'']]"
  let ?envA = "env_of ?reqA (Inr ''snapshot'') (Inr snapshot_acme)"
  let ?reqP = "request_with [partner_header [''P1'']]"
  let ?envP = "env_of ?reqP (Inr ''snapshot'') (Inr snapshot_two)"
  have aA: "accepted ?envA (post ''body'') ?reqA" by (rule accepted_env_of)
  have aP: "accepted ?envP (post ''body'') ?reqP" by (rule accepted_env_of)
  have lA: "loadEntitlements ?envA = Inr snapshot_acme" by (simp add: loadEntitlements_def env_of_def)
  have lP: "loadEntitlements ?envP = Inr snapshot_two" by (simp add: loadEntitlements_def env_of_def)
  have hA: "getHeaderValue (AdditionalHeaders (Request (Event ?reqA))) ''x-b2b-usp-partner'' = Inr ''ACME''"
    by (simp add: request_with_def partner_header_def index_def)
  have hP: "getHeaderValue (AdditionalHeaders (Request (Event ?reqP))) ''x-b2b-usp-partner'' = Inr ''P1''"
    by (simp add: request_with_def partner_header_def index_def)
  have sA: "Entitlements snapshot_acme = [grant ''e1'' ''partner'' ''ACME'' ''read''] \<and>
            Subject (grant ''e1'' ''partner'' ''ACME'' ''read'') = \<lparr>Type = ''partner'', ID = ''ACME''\<rparr> \<and>
            Action (grant ''e1'' ''partner'' ''ACME'' ''read'') = ''read''"
    by (simp add: snapshot_acme_def grant_def)
  have sP: "Entitlements snapshot_two =
              [grant ''e1'' ''partner'' ''P1'' ''invoke'', grant ''e2'' ''partner'' ''P2'' ''view''] \<and>
            Subject (grant ''e1'' ''partner'' ''P1'' ''invoke'') = \<lparr>Type = ''partner'', ID = ''P1''\<rparr> \<and>
            Action (grant ''e1'' ''partner'' ''P1'' ''invoke'') = ''invoke'' \<and>
            Subject (grant ''e2'' ''partner'' ''P2'' ''view'') = \<lparr>Type = ''partner'', ID = ''P2''\<rparr> \<and>
            Action (grant ''e2'' ''partner'' ''P2'' ''view'') = ''view''"
    by (simp add: snapshot_two_def grant_def)
  note tA = specification_scenarios [OF aA lA, THEN conjunct1, rule_format,
      where x = "grant ''e1'' ''partner'' ''ACME'' ''read''"]
  note tP = specification_scenarios [OF aP lP, THEN conjunct2, rule_format,
      where y = "grant ''e1'' ''partner'' ''P1'' ''invoke''" and z = "grant ''e2'' ''partner'' ''P2'' ''view''"]
  from tA hA sA have rA: "handler ?envA (post ''body'') =
       Inr (Encoded ''application/json;charset=UTF-8''
                \<lparr>ActionStatus = ''SUCCESS'',
                 Operations = [\<lparr>OperationResponse.Op = ''add'', Path = ''/accessToken/scopes/-'',
                                Value = JString ''partner:read''\<rparr>],
                 FailureReason = '''', FailureDescription = '''',
                 ErrorMessage = '''', ErrorDescription = ''''\<rparr>)"
    by blast
  from tP hP sP have rP: "handler ?envP (post ''body'') =
       Inr (Encoded ''application/json;charset=UTF-8''
                \<lparr>ActionStatus = ''SUCCESS'',
                 Operations = [\<lparr>OperationResponse.Op = ''add'', Path = ''/accessToken/scopes/-'',
                                Value = JString ''partner:invoke''\<rparr>],
                 FailureReason = '''', FailureDescription = '''',
                 ErrorMessage = '''', ErrorDescription = ''''\<rparr>)"
    by blast
  from aA lA rA aP lP rP show ?thesis by blast
qed

section \<open>A snapshot that cannot be loaded\<close>

text \<open>
  C2 as the specification states it, for every event, does not hold: the handler looks
  for the partner identifier first and reads \<open>entitlements.json\<close> only when it found
  one. A request without additional headers, served while the file cannot be read, is
  answered with SUCCESS and no operations.
\<close>

theorem unreadable_snapshot_without_partner_counterexample:
  "accepted (env_unreadable (request_with [])) (post ''body'') (request_with [])
   \<and> loadEntitlements (env_unreadable (request_with []))
       = Inl ''failed to read entitlements.json: open entitlements.json: no such file or directory''
   \<and> handler (env_unreadable (request_with [])) (post ''body'')
       = Inr (Encoded ''application/json;charset=UTF-8''
                \<lparr>ActionStatus = ''SUCCESS'', Operations = [],
                 FailureReason = '''', FailureDescription = '''',
                 ErrorMessage = '''', ErrorDescription = ''''\<rparr>)"
  by (simp add: accepted_def handler_def loadEntitlements_def env_unreadable_def env_of_def
        request_with_def post_def)

text \<open>
  C2, amended. For every event from which a non-empty partner identifier was extracted:
  if \<open>entitlements.json\<close> cannot be read, or is read and cannot be parsed, the handler
  answers with the internal-error status, \<open>http.Error\<close> with status 500 and the message
  \<open>Internal server error\<close>. No \<open>Response\<close> is encoded, so there is no operation list,
  partial or not, and the handler does not panic.
\<close>

theorem snapshot_failure_internal_server_error:
  assumes "accepted e r req"
    and "getHeaderValue (AdditionalHeaders (Request (Event req))) ''x-b2b-usp-partner'' = Inr partnerID"
    and "partnerID \<noteq> ''''"
    and "(\<exists>err. readFile e ''entitlements.json'' = Inl err)
         \<or> (\<exists>data err. readFile e ''entitlements.json'' = Inr data \<and> unmarshalEntitlements e data = Inl err)"
  shows "handler e r = Inr (http_Error ''Internal server error'' 500)
         \<and> emitted (handler e r) = [] \<and> actionStatus (handler e r) = None"
proof -
  from assms(4) obtain err where "loadEntitlements e = Inl err"
    by (auto simp: loadEntitlements_def)
  with handler_partner [OF assms(1-3)] show ?thesis by simp
qed

theorem snapshot_failure_internal_server_error_witness:
  "accepted (env_unreadable (request_with [partner_header [''P1'']])) (post ''body'')
     (request_with [partner_header [''P1'']])
   \<and> readFile (env_unreadable (request_with [partner_header [''P1'']])) ''entitlements.json''
       = Inl ''open entitlements.json: no such file or directory''
   \<and> handler (env_unreadable (request_with [partner_header [''P1'']])) (post ''body'')
       = Inr (http_Error ''Internal server error'' 500)
   \<and> accepted (env_unparseable (request_with [partner_header [''P1'']])) (post ''body'')
       (request_with [partner_header [''P1'']])
   \<and> readFile (env_unparseable (request_with [partner_header [''P1'']])) ''entitlements.json'' = Inr ''{''
   \<and> unmarshalEntitlements (env_unparseable (request_with [partner_header [''P1'']])) ''{''
       = Inl ''unexpected end of JSON input''
   \<and> handler (env_unparseable (request_with [partner_header [''P1'']])) (post ''body'')
       = Inr (http_Error ''Internal server error'' 500)"
proof -
  let ?req = "request_with [partner_header [''P1'']]"
  have a1: "accepted (env_unreadable ?req) (post ''body'') ?req"
    unfolding env_unreadable_def by (rule accepted_env_of)
  have a2: "accepted (env_unparseable ?req) (post ''body'') ?req"
    unfolding env_unparseable_def by (rule accepted_env_of)
  have h: "getHeaderValue (AdditionalHeaders (Request (Event ?req))) ''x-b2b-usp-partner'' = Inr ''P1''"
    by (simp add: request_with_def partner_header_def index_def)
  have n: "''P1'' \<noteq> ''''" by simp
  have f1: "readFile (env_unreadable ?req) ''entitlements.json''
              = Inl ''open entitlements.json: no such file or directory''"
    by (simp add: env_unreadable_def env_of_def)
  have f2: "readFile (env_unparseable ?req) ''entitlements.json'' = Inr ''{''"
    by (simp add: env_unparseable_def env_of_def)
  have u2: "unmarshalEntitlements (env_unparseable ?req) ''{'' = Inl ''unexpected end of JSON input''"
    by (simp add: env_unparseable_def env_of_def)
  from f1 have d1: "(\<exists>err. readFile (env_unreadable ?req) ''entitlements.json'' = Inl err)
         \<or> (\<exists>data err. readFile (env_unreadable ?req) ''entitlements.json'' = Inr data \<and>
               unmarshalEntitlements (env_unreadable ?req) data = Inl err)"
    by blast
  from f2 u2 have d2: "(\<exists>err. readFile (env_unparseable ?req) ''entitlements.json'' = Inl err)
         \<or> (\<exists>data err. readFile (env_unparseable ?req) ''entitlements.json'' = Inr data \<and>
               unmarshalEntitlements (env_unparseable ?req) data = Inl err)"
    by blast
  from snapshot_failure_internal_server_error [OF a1 h n d1]
    snapshot_failure_internal_server_error [OF a2 h n d2] a1 a2 f1 f2 u2
  show ?thesis by blast
qed

section \<open>What the decision depends on\<close>

text \<open>
  C9. Two events that agree on \<open>additionalHeaders\<close> and are evaluated against the same
  snapshot get the same reply, hence the same \<open>actionStatus\<close> and the same operations,
  however they differ in \<open>clientId\<close>, \<open>grantType\<close>, the scopes and claims of the access
  token, or the refresh token.
\<close>

theorem decision_reads_only_additional_headers:
  assumes "accepted e1 r1 req1"
    and "accepted e2 r2 req2"
    and "AdditionalHeaders (Request (Event req1)) = AdditionalHeaders (Request (Event req2))"
    and "loadEntitlements e1 = loadEntitlements e2"
  shows "actionStatus (handler e1 r1) = actionStatus (handler e2 r2)
         \<and> emitted (handler e1 r1) = emitted (handler e2 r2)
         \<and> handler e1 r1 = handler e2 r2"
proof -
  have "handler e1 r1 = handler e2 r2"
    using assms by (auto simp: handler_def accepted_def split: sum.splits)
  then show ?thesis by simp
qed

theorem decision_reads_only_additional_headers_witness:
  "accepted (env_of (request_with [partner_header [''P1'']]) (Inr ''snapshot'') (Inr snapshot_two))
     (post ''body'') (request_with [partner_header [''P1'']])
   \<and> accepted (env_of (other_request_with [partner_header [''P1'']]) (Inr ''snapshot'') (Inr snapshot_two))
       (post ''body'') (other_request_with [partner_header [''P1'']])
   \<and> ClientID (Request (Event (request_with [partner_header [''P1'']])))
       \<noteq> ClientID (Request (Event (other_request_with [partner_header [''P1'']])))
   \<and> AccessToken (Event (request_with [partner_header [''P1'']]))
       \<noteq> AccessToken (Event (other_request_with [partner_header [''P1'']]))
   \<and> RefreshToken (Event (request_with [partner_header [''P1'']]))
       \<noteq> RefreshToken (Event (other_request_with [partner_header [''P1'']]))
   \<and> handler (env_of (request_with [partner_header [''P1'']]) (Inr ''snapshot'') (Inr snapshot_two))
       (post ''body'')
     = handler (env_of (other_request_with [partner_header [''P1'']]) (Inr ''snapshot'') (Inr snapshot_two))
         (post ''body'')"
proof -
  let ?req1 = "request_with [partner_header [''P1'']]"
  let ?req2 = "other_request_with [partner_header [''P1'']]"
  let ?e1 = "env_of ?req1 (Inr ''snapshot'') (Inr snapshot_two)"
  let ?e2 = "env_of ?req2 (Inr ''snapshot'') (Inr snapshot_two)"
  have a1: "accepted ?e1 (post ''body'') ?req1" by (rule accepted_env_of)
  have a2: "accepted ?e2 (post ''body'') ?req2" by (rule accepted_env_of)
  have hs: "AdditionalHeaders (Request (Event ?req1)) = AdditionalHeaders (Request (Event ?req2))"
    by (simp add: request_with_def other_request_with_def)
  have l: "loadEntitlements ?e1 = loadEntitlements ?e2"
    by (simp add: loadEntitlements_def env_of_def)
  have d: "ClientID (Request (Event ?req1)) \<noteq> ClientID (Request (Event ?req2))
           \<and> AccessToken (Event ?req1) \<noteq> AccessToken (Event ?req2)
           \<and> RefreshToken (Event ?req1) \<noteq> RefreshToken (Event ?req2)"
    by (simp add: request_with_def other_request_with_def)
  from decision_reads_only_additional_headers [OF a1 a2 hs l] a1 a2 d show ?thesis by blast
qed

text \<open>
  C7 as the specification states it does not hold in its last part: a run of the handler
  is observable beyond its reply. For the request of partner \<open>P1\<close> against the snapshot of
  two records it prints fourteen lines to the log and reads \<open>entitlements.json\<close>.
\<close>

theorem handler_logs_and_reads_file_counterexample:
  "handler_trace (env_of (request_with [partner_header [''P1'']]) (Inr ''snapshot'') (Inr snapshot_two))
     (post ''body'')
   = [Logged ''=== Full Request Details ==='',
      Logged ''Method: POST'',
      Logged ''URL: /token-validation'',
      Logged ''Protocol: HTTP/1.1'',
      Logged ''Remote Address: 10.0.0.7:41822'',
      Logged ''Headers:'',
      Logged ''  Content-Type: application/json'',
      Logged ''Body: body'',
      Logged ''=== End Request Details ==='',
      Logged ''Processing PRE_ISSUE_ACCESS_TOKEN for client: 1u31N7of6gCNR9FqkG1neSlsF_Qa'',
      Logged ''AdditionalHeaders:'',
      Logged ''  x-b2b-usp-partner: [P1]'',
      Logged ''Partner ID from AdditionalHeaders: P1'',
      FileRead ''entitlements.json'',
      Logged ''Added scope: partner:invoke for partner P1'']"
  by (simp add: handler_trace_def env_of_def request_with_def post_def partner_header_def
        index_def loadEntitlements_def snapshot_two_def grant_def additional_header_lines_def
        sprint_v_def)

text \<open>
  C7, amended. The reply is a function of the event and of the snapshot as loaded: two
  runs of the handler on the same event, with the same result of loading
  \<open>entitlements.json\<close>, give the same reply, even when the requests differ outside the
  event and the environments differ outside the snapshot. Besides its reply a run writes
  log lines and, exactly when the extracted partner identifier is not empty, reads
  \<open>entitlements.json\<close> once; it has no other effect.
\<close>

theorem reply_determined_effects_are_log_and_snapshot_read:
  assumes "accepted e1 r1 req1"
    and "accepted e2 r2 req2"
    and "Event req1 = Event req2"
    and "loadEntitlements e1 = loadEntitlements e2"
  shows "handler e1 r1 = handler e2 r2
         \<and> filter (\<lambda>x. \<not> is_Logged x) (handler_trace e1 r1) =
             (if getHeaderValue (AdditionalHeaders (Request (Event req1))) ''x-b2b-usp-partner'' = Inr ''''
              then [] else [FileRead ''entitlements.json''])
         \<and> filter (\<lambda>x. \<not> is_Logged x) (handler_trace e2 r2) =
             filter (\<lambda>x. \<not> is_Logged x) (handler_trace e1 r1)"
proof -
  have reply: "handler e1 r1 = handler e2 r2"
    using assms by (auto simp: handler_def accepted_def split: sum.splits)
  have t1: "filter (\<lambda>x. \<not> is_Logged x) (handler_trace e1 r1) =
             (if getHeaderValue (AdditionalHeaders (Request (Event req1))) ''x-b2b-usp-partner'' = Inr ''''
              then [] else [FileRead ''entitlements.json''])"
    using assms(1) by (rule unlogged_effects)
  have "filter (\<lambda>x. \<not> is_Logged x) (handler_trace e2 r2) =
             (if getHeaderValue (AdditionalHeaders (Request (Event req2))) ''x-b2b-usp-partner'' = Inr ''''
              then [] else [FileRead ''entitlements.json''])"
    using assms(2) by (rule unlogged_effects)
  with t1 assms(3) have "filter (\<lambda>x. \<not> is_Logged x) (handler_trace e2 r2) =
             filter (\<lambda>x. \<not> is_Logged x) (handler_trace e1 r1)"
    by simp
  with reply t1 show ?thesis by blast
qed

theorem reply_determined_effects_are_log_and_snapshot_read_witness:
  "accepted (env_of (request_with [partner_header [''P1'']]) (Inr ''snapshot'') (Inr snapshot_repeated))
     (post ''body'') (request_with [partner_header [''P1'']])
   \<and> accepted
       (env_of ((request_with [partner_header [''P1'']])\<lparr>ActionType := ''PRE_ISSUE'', AllowedOperations :=
                  [\<lparr>Operation.Op = ''add'', Paths = [''/accessToken/scopes/'']\<rparr>]\<rparr>)
          (Inr ''the same snapshot, formatted otherwise'') (Inr snapshot_repeated))
       ((post ''another body'')\<lparr>RemoteAddr := ''10.0.0.9:50110''\<rparr>)
       ((request_with [partner_header [''P1'']])\<lparr>ActionType := ''PRE_ISSUE'', AllowedOperations :=
                  [\<lparr>Operation.Op = ''add'', Paths = [''/accessToken/scopes/'']\<rparr>]\<rparr>)
   \<and> handler (env_of (request_with [partner_header [''P1'']]) (Inr ''snapshot'') (Inr snapshot_repeated))
       (post ''body'')
     = handler
         (env_of ((request_with [partner_header [''P1'']])\<lparr>ActionType := ''PRE_ISSUE'', AllowedOperations :=
                    [\<lparr>Operation.Op = ''add'', Paths = [''/accessToken/scopes/'']\<rparr>]\<rparr>)
            (Inr ''the same snapshot, formatted otherwise'') (Inr snapshot_repeated))
         ((post ''another body'')\<lparr>RemoteAddr := ''10.0.0.9:50110''\<rparr>)
   \<and> filter (\<lambda>x. \<not> is_Logged x)
       (handler_trace (env_of (request_with [partner_header [''P1'']]) (Inr ''snapshot'') (Inr snapshot_repeated))
          (post ''body''))
     = [FileRead ''entitlements.json'']"
proof -
  let ?req1 = "request_with [partner_header [''P1'']]"
  let ?req2 = "?req1\<lparr>ActionType := ''PRE_ISSUE'', AllowedOperations :=
                  [\<lparr>Operation.Op = ''add'', Paths = [''/accessToken/scopes/'']\<rparr>]\<rparr>"
  let ?e1 = "env_of ?req1 (Inr ''snapshot'') (Inr snapshot_repeated)"
  let ?e2 = "env_of ?req2 (Inr ''the same snapshot, formatted otherwise'') (Inr snapshot_repeated)"
  let ?r2 = "(post ''another body'')\<lparr>RemoteAddr := ''10.0.0.9:50110''\<rparr>"
  have a1: "accepted ?e1 (post ''body'') ?req1" by (rule accepted_env_of)
  have a2: "accepted ?e2 ?r2 ?req2" by (simp add: accepted_def env_of_def post_def)
  have ev: "Event ?req1 = Event ?req2" by simp
  have l: "loadEntitlements ?e1 = loadEntitlements ?e2"
    by (simp add: loadEntitlements_def env_of_def)
  have h: "getHeaderValue (AdditionalHeaders (Request (Event ?req1))) ''x-b2b-usp-partner'' = Inr ''P1''"
    by (simp add: request_with_def partner_header_def index_def)
  from reply_determined_effects_are_log_and_snapshot_read [OF a1 a2 ev l] h a1 a2
  show ?thesis by simp
qed

end
